theory Spec2Isabelle
  imports Complex_Main "HOL-Library.Char_ord" "HOL-Library.List_Lexorder"
begin

section \<open>Python values, exceptions and the annotated container\<close>

text \<open>
  The module \<^verbatim>\<open>scanpy/external/pl.py\<close> is orchestration code: it reads an \<^verbatim>\<open>AnnData\<close>
  container, calls matplotlib and hands work to collaborators. The embedding keeps the
  control flow of each function and records every call to the plotting toolkit as an
  event, in call order. Exceptions are values: a function returns \<open>py_error + 'a\<close>
  next to the state it leaves behind.
\<close>

datatype py_error =
    KeyError string
  | ValueError string "py_error option"  \<comment> \<open>message and \<^verbatim>\<open>__cause__\<close> (\<^verbatim>\<open>raise ... from e\<close>)\<close>
  | TypeError
  | IndexError
  | AttributeError

datatype cell = Str string | Num real

text \<open>A one-dimensional numpy array has one dtype: strings or numbers.\<close>

datatype ndarray = StrArr "string list" | NumArr "real list"

text \<open>A column of \<^verbatim>\<open>adata.obs\<close> (a pandas Series), with values of one kind.\<close>

datatype column = StrCol "string list" | NumCol "real list"

type_synonym table = "(string \<times> real list) list"

datatype uns_value = UStr string | UTable table

record anndata =
  obsm :: "string \<rightharpoonup> real list list"
  obs :: "string \<rightharpoonup> column"
  uns :: "string \<rightharpoonup> uns_value"

text \<open>
  The color argument \<^verbatim>\<open>c\<close> of \<^verbatim>\<open>sam\<close>: a string, a numpy array, a Python list, and the
  values that are not array-like (a tuple such as an RGB triple, a bare number).
\<close>

datatype color =
    CStr string
  | CArray ndarray
  | CList "cell list"
  | CTuple "cell list"
  | CScalar real

datatype projection = PKey string | PArr "real list list"

type_synonym kwargs = "(string \<times> string) list"

section \<open>The plotting toolkit: figures, axes and the trace of calls\<close>

datatype figure = Figure (fig_id: nat)

datatype axes = Axes (ax_id: nat) (ax_figure: figure)

text \<open>What \<^verbatim>\<open>plt.subplots(1, n)\<close> hands back with the default \<^verbatim>\<open>squeeze=True\<close>.\<close>

datatype subplot_axes = Single axes | AxArray "axes list"

datatype ret = RNone | RFig figure | RAxes axes | RSubplots subplot_axes

text \<open>The value passed as \<^verbatim>\<open>c=\<close> to \<^verbatim>\<open>Axes.scatter\<close>.\<close>

datatype scatter_c = NoColor | Codes "int list" | Raw color

record embedding_args =
  e_basis :: string
  e_color :: string
  e_groups :: cell
  e_title :: cell
  e_show :: bool
  e_ax :: axes
  e_legend_loc :: string

record trajectory_args =
  t_markers :: "string list"
  t_show_variance :: bool
  t_no_bins :: int
  t_smoothing_factor :: int
  t_min_delta :: real
  t_fig :: figure
  t_ax :: axes

text \<open>The \<^verbatim>\<open>save\<close> argument: \<^verbatim>\<open>None\<close>, a flag or a file name.\<close>

datatype save_arg = Save_none | Save_flag bool | Save_path string

datatype event =
    New_figure figure "(real \<times> real) option"
  | New_axes axes
  | Ax_scatter axes "real list" "real list" scatter_c "string option" real real string kwargs
  | Plt_colorbar axes "int list option"
  | Cbar_set_yticklabels axes "string list"
  | Call_embedding embedding_args
  | Set_axis_off axes
  | Call_plot_marker_trajectory trajectory_args
  | Savefig_or_show string bool save_arg

record plt =
  next_id :: nat
  gcf :: "figure option"
  current_axes :: "axes option"
  trace :: "event list"

definition emit :: "event \<Rightarrow> plt \<Rightarrow> plt" where
  "emit e st = st\<lparr>trace := trace st @ [e]\<rparr>"

text \<open>\<^verbatim>\<open>plt.figure(figsize=...)\<close>: a new figure, which becomes current and has no axes yet.\<close>

definition plt_figure :: "(real \<times> real) option \<Rightarrow> plt \<Rightarrow> plt \<times> figure" where
  "plt_figure figsize st =
     (let f = Figure (next_id st)
      in (st\<lparr>next_id := Suc (next_id st), gcf := Some f, current_axes := None,
               trace := trace st @ [New_figure f figsize]\<rparr>, f))"

text \<open>
  \<^verbatim>\<open>plt.gca()\<close>: the current axes of the current figure; a figure, then an axes, is
  created when there is none.
\<close>

definition plt_gca :: "plt \<Rightarrow> plt \<times> axes" where
  "plt_gca st =
     (case current_axes st of
        Some a \<Rightarrow> (st, a)
      | None \<Rightarrow>
          (let (st1, f) = (case gcf st of None \<Rightarrow> plt_figure None st | Some f \<Rightarrow> (st, f));
               a = Axes (next_id st1) f
           in (st1\<lparr>next_id := Suc (next_id st1), current_axes := Some a,
                    trace := trace st1 @ [New_axes a]\<rparr>, a)))"

text \<open>
  \<^verbatim>\<open>plt.subplots(1, n)\<close>: a new figure with \<open>n\<close> axes in a row. With the default
  \<^verbatim>\<open>squeeze=True\<close> a single subplot comes back as a bare axes and a row of several as an
  array; matplotlib's grid refuses a column count of zero with a ValueError.
\<close>

definition plt_subplots :: "nat \<Rightarrow> plt \<Rightarrow> plt \<times> (py_error + figure \<times> subplot_axes)" where
  "plt_subplots n st =
     (let (st1, f) = plt_figure None st
      in if n = 0
         then (st1, Inl (ValueError ''Number of columns must be a positive integer, not 0'' None))
         else
           (let axs = map (\<lambda>k. Axes (next_id st1 + k) f) [0..<n];
                st2 = st1\<lparr>next_id := next_id st1 + n, current_axes := Some (last axs),
                          trace := trace st1 @ map New_axes axs\<rparr>
            in (st2, Inr (f, if n = 1 then Single (hd axs) else AxArray axs))))"

text \<open>\<^verbatim>\<open>axes[i]\<close> on the result of \<^verbatim>\<open>plt.subplots\<close>: a bare axes is not subscriptable.\<close>

fun subscript :: "subplot_axes \<Rightarrow> nat \<Rightarrow> py_error + axes" where
  "subscript (Single a) i = Inl TypeError"
| "subscript (AxArray axs) i = (if i < length axs then Inr (axs ! i) else Inl IndexError)"

section \<open>numpy and pandas helpers\<close>

text \<open>\<^verbatim>\<open>dt[:, k]\<close> on a two-dimensional array given as its rows.\<close>

definition column_of :: "nat \<Rightarrow> real list list \<Rightarrow> py_error + real list" where
  "column_of k dt =
     (if list_all (\<lambda>r. k < length r) dt then Inr (map (\<lambda>r. r ! k) dt) else Inl IndexError)"

text \<open>The two coordinate arguments of a scatter call, evaluated left to right.\<close>

definition xy :: "real list list \<Rightarrow> py_error + real list \<times> real list" where
  "xy dt =
     (case column_of 0 dt of
        Inl e \<Rightarrow> Inl e
      | Inr x \<Rightarrow> (case column_of 1 dt of Inl e \<Rightarrow> Inl e | Inr y \<Rightarrow> Inr (x, y)))"

text \<open>\<^verbatim>\<open>np.array(list(col))\<close> for a column of one kind of value.\<close>

fun np_array_of :: "column \<Rightarrow> ndarray" where
  "np_array_of (StrCol xs) = StrArr xs"
| "np_array_of (NumCol xs) = NumArr xs"

fun column_cells :: "column \<Rightarrow> cell list" where
  "column_cells (StrCol xs) = map Str xs"
| "column_cells (NumCol xs) = map Num xs"

text \<open>\<^verbatim>\<open>Series.unique()\<close>: the distinct values, each at its first appearance.\<close>

fun unique_seen :: "'a list \<Rightarrow> 'a list \<Rightarrow> 'a list" where
  "unique_seen seen [] = []"
| "unique_seen seen (x # xs) =
     (if x \<in> set seen then unique_seen seen xs else x # unique_seen (x # seen) xs)"

definition pd_unique :: "column \<Rightarrow> cell list" where
  "pd_unique col = unique_seen [] (column_cells col)"

text \<open>Position of the first element equal to \<open>v\<close> (the length when there is none).\<close>

fun first_index :: "'a list \<Rightarrow> 'a \<Rightarrow> nat" where
  "first_index [] v = 0"
| "first_index (x # xs) v = (if x = v then 0 else Suc (first_index xs v))"

text \<open>
  \<^verbatim>\<open>np.unique(i, return_index=True)\<close>: the sorted distinct values and, for each, the
  index of its first occurrence in \<open>i\<close>.
\<close>

definition np_unique :: "int list \<Rightarrow> int list \<times> nat list" where
  "np_unique i = (let ui = sort (remdups i) in (ui, map (first_index i) ui))"

text \<open>\<^verbatim>\<open>c[0]\<close> for each kind of color value.\<close>

fun first_item :: "color \<Rightarrow> py_error + cell" where
  "first_item (CStr s) = (case s of [] \<Rightarrow> Inl IndexError | ch # _ \<Rightarrow> Inr (Str [ch]))"
| "first_item (CArray (StrArr xs)) = (case xs of [] \<Rightarrow> Inl IndexError | x # _ \<Rightarrow> Inr (Str x))"
| "first_item (CArray (NumArr xs)) = (case xs of [] \<Rightarrow> Inl IndexError | x # _ \<Rightarrow> Inr (Num x))"
| "first_item (CList xs) = (case xs of [] \<Rightarrow> Inl IndexError | x # _ \<Rightarrow> Inr x)"
| "first_item (CTuple xs) = (case xs of [] \<Rightarrow> Inl IndexError | x # _ \<Rightarrow> Inr x)"
| "first_item (CScalar v) = Inl TypeError"

text \<open>\<^verbatim>\<open>isinstance(v, str | np.str_)\<close>.\<close>

fun is_str :: "cell \<Rightarrow> bool" where
  "is_str (Str s) = True"
| "is_str (Num v) = False"

text \<open>\<^verbatim>\<open>isinstance(c, np.ndarray | list)\<close>.\<close>

fun is_array_or_list :: "color \<Rightarrow> bool" where
  "is_array_or_list (CArray a) = True"
| "is_array_or_list (CList xs) = True"
| "is_array_or_list (CStr s) = False"
| "is_array_or_list (CTuple xs) = False"
| "is_array_or_list (CScalar v) = False"

text \<open>
  \<^verbatim>\<open>c[ai]\<close> with \<open>ai\<close> a numpy index array, on the two kinds of value that reach the
  categorical branch with string items: a string array is indexed element by element,
  a Python list cannot be indexed by an array.
\<close>

fun take_at :: "color \<Rightarrow> nat list \<Rightarrow> py_error + string list" where
  "take_at (CArray (StrArr xs)) ai =
     (if list_all (\<lambda>j. j < length xs) ai then Inr (map (\<lambda>j. xs ! j) ai) else Inl IndexError)"
| "take_at c ai = Inl TypeError"

section \<open>\<^verbatim>\<open>sam\<close>: the generic projection scatter\<close>

text \<open>
  Lines 197-204. A string is looked up in \<^verbatim>\<open>adata.obsm\<close>; the KeyError of a missing key
  is caught and a ValueError is raised from it. Anything else is taken as the array.
\<close>

definition resolve_projection :: "anndata \<Rightarrow> projection \<Rightarrow> py_error + real list list" where
  "resolve_projection adata projection =
     (case projection of
        PKey k \<Rightarrow>
          (case obsm adata k of
             None \<Rightarrow>
               Inl (ValueError ''Please create a projection first using run_umap or run_tsne''
                      (Some (KeyError k)))
           | Some dt \<Rightarrow> Inr dt)
      | PArr dt \<Rightarrow> Inr dt)"

text \<open>Lines 206-208: without an axes argument, a new figure and its axes.\<close>

definition acquire_axes :: "axes option \<Rightarrow> plt \<Rightarrow> plt \<times> axes" where
  "acquire_axes axes st =
     (case axes of
        None \<Rightarrow> (let (st1, f) = plt_figure None st in plt_gca st1)
      | Some a \<Rightarrow> (st, a))"

text \<open>
  Lines 216-218: a string is looked up in \<^verbatim>\<open>adata.obs\<close> under
  \<^verbatim>\<open>contextlib.suppress(KeyError)\<close>; when the lookup fails \<^verbatim>\<open>c\<close> keeps its value.
\<close>

definition resolve_color :: "anndata \<Rightarrow> color \<Rightarrow> color" where
  "resolve_color adata c =
     (case c of
        CStr name \<Rightarrow> (case obs adata name of None \<Rightarrow> c | Some col \<Rightarrow> CArray (np_array_of col))
      | _ \<Rightarrow> c)"

text \<open>Lines 210-214: no color.\<close>

definition sam_plain ::
  "real list list \<Rightarrow> axes \<Rightarrow> real \<Rightarrow> string \<Rightarrow> real \<Rightarrow> kwargs \<Rightarrow> plt \<Rightarrow> plt \<times> (py_error + axes)"
where
  "sam_plain dt axes linewidth edgecolor s kwargs st =
     (case xy dt of
        Inl e \<Rightarrow> (st, Inl e)
      | Inr (x, y) \<Rightarrow>
          (emit (Ax_scatter axes x y NoColor None s linewidth edgecolor kwargs) st, Inr axes))"

text \<open>
  Lines 221-238: the categorical branch. \<^verbatim>\<open>samalg.utilities.convert_annotations\<close> belongs
  to another package and is a parameter; its error covers a failing import as well.
\<close>

definition sam_categorical ::
  "(color \<Rightarrow> py_error + int list) \<Rightarrow> real list list \<Rightarrow> axes \<Rightarrow> color \<Rightarrow> string \<Rightarrow> real \<Rightarrow>
   string \<Rightarrow> bool \<Rightarrow> real \<Rightarrow> kwargs \<Rightarrow> plt \<Rightarrow> plt \<times> (py_error + axes)"
where
  "sam_categorical convert_annotations dt axes c cmap linewidth edgecolor colorbar s kwargs st =
     (case convert_annotations c of
        Inl e \<Rightarrow> (st, Inl e)
      | Inr i \<Rightarrow>
          (let (ui, ai) = np_unique i
           in case xy dt of
                Inl e \<Rightarrow> (st, Inl e)
              | Inr (x, y) \<Rightarrow>
                  (let st2 = emit (Ax_scatter axes x y (Codes i) (Some cmap) s linewidth
                                     edgecolor kwargs) st
                   in if colorbar
                      then
                        (let st3 = emit (Plt_colorbar axes (Some ui)) st2
                         in case take_at c ai of
                              Inl e \<Rightarrow> (st3, Inl e)
                            | Inr labels \<Rightarrow> (emit (Cbar_set_yticklabels axes labels) st3, Inr axes))
                      else (st2, Inr axes))))"

text \<open>Lines 240-256: the pass-through branch.\<close>

definition sam_numeric ::
  "real list list \<Rightarrow> axes \<Rightarrow> color \<Rightarrow> string \<Rightarrow> real \<Rightarrow> string \<Rightarrow> bool \<Rightarrow> real \<Rightarrow> kwargs \<Rightarrow>
   plt \<Rightarrow> plt \<times> (py_error + axes)"
where
  "sam_numeric dt axes c cmap linewidth edgecolor colorbar s kwargs st =
     (let colorbar' = (if \<not> is_array_or_list c then False else colorbar);
          i = c
      in case xy dt of
           Inl e \<Rightarrow> (st, Inl e)
         | Inr (x, y) \<Rightarrow>
             (let st2 = emit (Ax_scatter axes x y (Raw i) (Some cmap) s linewidth edgecolor
                                kwargs) st
              in if colorbar' then (emit (Plt_colorbar axes None) st2, Inr axes)
                 else (st2, Inr axes)))"

definition sam ::
  "(color \<Rightarrow> py_error + int list) \<Rightarrow> anndata \<Rightarrow> projection \<Rightarrow> color option \<Rightarrow> string \<Rightarrow> real \<Rightarrow>
   string \<Rightarrow> axes option \<Rightarrow> bool \<Rightarrow> real \<Rightarrow> kwargs \<Rightarrow> plt \<Rightarrow> plt \<times> (py_error + axes)"
where
  "sam convert_annotations adata projection c cmap linewidth edgecolor axes colorbar s kwargs st =
     (case resolve_projection adata projection of
        Inl e \<Rightarrow> (st, Inl e)
      | Inr dt \<Rightarrow>
          (let (st1, ax) = acquire_axes axes st
           in case c of
                None \<Rightarrow> sam_plain dt ax linewidth edgecolor s kwargs st1
              | Some c0 \<Rightarrow>
                  (let c1 = resolve_color adata c0
                   in case first_item c1 of
                        Inl e \<Rightarrow> (st1, Inl e)
                      | Inr item \<Rightarrow>
                          if is_str item \<and> is_array_or_list c1
                          then sam_categorical convert_annotations dt ax c1 cmap linewidth
                                 edgecolor colorbar s kwargs st1
                          else sam_numeric dt ax c1 cmap linewidth edgecolor colorbar s
                                 kwargs st1)))"

text \<open>
  The encoder of the \<^verbatim>\<open>samalg\<close> package as the specification describes it: the sorted
  distinct labels, and for each row the position of its label among them. It is defined
  on string arrays; a Python list has no \<^verbatim>\<open>size\<close> attribute.
\<close>

fun convert_annotations :: "color \<Rightarrow> py_error + int list" where
  "convert_annotations (CArray (StrArr xs)) =
     (let u = sort (remdups xs) in Inr (map (\<lambda>x. int (first_index u x)) xs))"
| "convert_annotations c = Inl AttributeError"

section \<open>\<^verbatim>\<open>harmony_timeseries\<close>: one panel per time point\<close>

text \<open>
  \<^verbatim>\<open>embedding\<close> of \<^verbatim>\<open>scanpy.plotting\<close> is a parameter of the model. \<^verbatim>\<open>p.set_axis_off()\<close>
  needs \<open>p\<close> to be an axes: nothing, a list or a figure has no such method.
\<close>

fun set_axis_off :: "ret \<Rightarrow> py_error + axes" where
  "set_axis_off (RAxes a) = Inr a"
| "set_axis_off p = Inl AttributeError"

text \<open>Lines 146-157: the loop over \<^verbatim>\<open>enumerate(tps)\<close>, from index \<open>i\<close> on.\<close>

fun harmony_panels ::
  "(anndata \<Rightarrow> embedding_args \<Rightarrow> py_error + ret) \<Rightarrow> anndata \<Rightarrow> string \<Rightarrow> subplot_axes \<Rightarrow> nat \<Rightarrow>
   cell list \<Rightarrow> plt \<Rightarrow> plt \<times> (py_error + unit)"
where
  "harmony_panels embedding adata tp_name axes i [] st = (st, Inr ())"
| "harmony_panels embedding adata tp_name axes i (tp # tps) st =
     (case subscript axes i of
        Inl e \<Rightarrow> (st, Inl e)
      | Inr ax \<Rightarrow>
          (let args = \<lparr>e_basis = ''harmony'', e_color = tp_name, e_groups = tp, e_title = tp,
                       e_show = False, e_ax = ax, e_legend_loc = ''none''\<rparr>;
               st1 = emit (Call_embedding args) st
           in case embedding adata args of
                Inl e \<Rightarrow> (st1, Inl e)
              | Inr p \<Rightarrow>
                  (case set_axis_off p of
                     Inl e \<Rightarrow> (st1, Inl e)
                   | Inr a \<Rightarrow>
                       harmony_panels embedding adata tp_name axes (Suc i) tps
                         (emit (Set_axis_off a) st1))))"

text \<open>
  Lines 142-162. The name stored under \<^verbatim>\<open>harmony_timepoint_var\<close> is a string; a table
  stored there is no column name (reported as a TypeError). The keyword arguments are
  accepted and not forwarded.
\<close>

definition harmony_timeseries ::
  "(anndata \<Rightarrow> embedding_args \<Rightarrow> py_error + ret) \<Rightarrow> anndata \<Rightarrow> bool \<Rightarrow> bool \<Rightarrow> kwargs \<Rightarrow> plt \<Rightarrow>
   plt \<times> (py_error + ret)"
where
  "harmony_timeseries embedding adata show return_fig kwargs st =
     (case uns adata ''harmony_timepoint_var'' of
        None \<Rightarrow> (st, Inl (KeyError ''harmony_timepoint_var''))
      | Some (UTable t) \<Rightarrow> (st, Inl TypeError)
      | Some (UStr tp_name) \<Rightarrow>
          (case obs adata tp_name of
             None \<Rightarrow> (st, Inl (KeyError tp_name))
           | Some col \<Rightarrow>
               (let tps = pd_unique col
                in case plt_subplots (length tps) st of
                     (st1, Inl e) \<Rightarrow> (st1, Inl e)
                   | (st1, Inr (fig, axes)) \<Rightarrow>
                       (case harmony_panels embedding adata tp_name axes 0 tps st1 of
                          (st2, Inl e) \<Rightarrow> (st2, Inl e)
                        | (st2, Inr u) \<Rightarrow>
                            if return_fig then (st2, Inr (RFig fig))
                            else if show then (st2, Inr RNone)
                            else (st2, Inr (RSubplots axes))))))"

section \<open>\<^verbatim>\<open>wishbone_marker_trajectory\<close>: the trajectory delegator\<close>

text \<open>
  \<^verbatim>\<open>_anndata_to_wishbone\<close> and the Wishbone object's \<^verbatim>\<open>plot_marker_trajectory\<close> are
  parameters. The three assignments to \<^verbatim>\<open>adata.uns\<close> happen one after the other, each
  after its own lookup in \<^verbatim>\<open>ret_values\<close>, so a missing table leaves the earlier writes
  in place. The container is returned next to the plotting state.
\<close>

text \<open>Lines 325-335: the figure and axes handed to the collaborator.\<close>

definition trajectory_canvas ::
  "string list \<Rightarrow> (real \<times> real) option \<Rightarrow> axes option \<Rightarrow> plt \<Rightarrow> plt \<times> figure \<times> axes"
where
  "trajectory_canvas markers figsize ax st =
     (let (width, height) =
            (case figsize of
               None \<Rightarrow> (2 * real (length markers), 0.75 * real (length markers))
             | Some wh \<Rightarrow> wh)
      in case ax of
           Some a \<Rightarrow> (st, ax_figure a, a)
         | None \<Rightarrow>
             (let (st1, fig) = plt_figure (Some (width, height)) st;
                  (st2, a) = plt_gca st1
              in (st2, fig, a)))"

text \<open>Lines 347-349: the three assignments into \<^verbatim>\<open>adata.uns\<close>.\<close>

definition store_branches :: "anndata \<Rightarrow> (string \<rightharpoonup> table) \<Rightarrow> anndata \<times> (py_error + unit)" where
  "store_branches adata ret_values =
     (case ret_values ''Trunk'' of
        None \<Rightarrow> (adata, Inl (KeyError ''Trunk''))
      | Some trunk \<Rightarrow>
          (let adata1 = adata\<lparr>uns := (uns adata)(''trunk_wishbone'' \<mapsto> UTable trunk)\<rparr>
           in case ret_values ''Branch1'' of
                None \<Rightarrow> (adata1, Inl (KeyError ''Branch1''))
              | Some branch1 \<Rightarrow>
                  (let adata2 =
                         adata1\<lparr>uns := (uns adata1)(''branch1_wishbone'' \<mapsto> UTable branch1)\<rparr>
                   in case ret_values ''Branch2'' of
                        None \<Rightarrow> (adata2, Inl (KeyError ''Branch2''))
                      | Some branch2 \<Rightarrow>
                          (adata2\<lparr>uns := (uns adata2)(''branch2_wishbone'' \<mapsto> UTable branch2)\<rparr>,
                           Inr ()))))"

text \<open>Lines 323-357.\<close>

definition wishbone_marker_trajectory ::
  "(anndata \<Rightarrow> py_error + 'wb) \<Rightarrow>
   ('wb \<Rightarrow> trajectory_args \<Rightarrow> py_error + (string \<rightharpoonup> table) \<times> figure \<times> axes) \<Rightarrow>
   anndata \<Rightarrow> string list \<Rightarrow> int \<Rightarrow> int \<Rightarrow> real \<Rightarrow> bool \<Rightarrow> (real \<times> real) option \<Rightarrow> bool \<Rightarrow> bool \<Rightarrow>
   save_arg \<Rightarrow> axes option \<Rightarrow> plt \<Rightarrow> anndata \<times> plt \<times> (py_error + ret)"
where
  "wishbone_marker_trajectory anndata_to_wishbone plot_marker_trajectory adata markers no_bins
     smoothing_factor min_delta show_variance figsize return_fig show save ax st =
     (case anndata_to_wishbone adata of
        Inl e \<Rightarrow> (adata, st, Inl e)
      | Inr wb \<Rightarrow>
          (let (st1, fig, ax1) = trajectory_canvas markers figsize ax st;
               args = \<lparr>t_markers = markers, t_show_variance = show_variance,
                       t_no_bins = no_bins, t_smoothing_factor = smoothing_factor,
                       t_min_delta = min_delta, t_fig = fig, t_ax = ax1\<rparr>;
               st2 = emit (Call_plot_marker_trajectory args) st1
           in case plot_marker_trajectory wb args of
                Inl e \<Rightarrow> (adata, st2, Inl e)
              | Inr (ret_values, fig', ax') \<Rightarrow>
                  (case store_branches adata ret_values of
                     (adata', Inl e) \<Rightarrow> (adata', st2, Inl e)
                   | (adata', Inr u) \<Rightarrow>
                       (let st3 = emit (Savefig_or_show ''wishbone_trajectory'' show save) st2
                        in if return_fig then (adata', st3, Inr (RFig fig'))
                           else if show then (adata', st3, Inr RNone)
                           else (adata', st3, Inr (RAxes ax'))))))"

section \<open>Reading the trace\<close>

fun is_colorbar :: "event \<Rightarrow> bool" where
  "is_colorbar (Plt_colorbar a t) = True"
| "is_colorbar e = False"

text \<open>The axes an event draws on, if it draws on one.\<close>

fun event_axes :: "event \<Rightarrow> axes option" where
  "event_axes (New_axes a) = Some a"
| "event_axes (Ax_scatter a x y c cm s lw ec kw) = Some a"
| "event_axes (Plt_colorbar a t) = Some a"
| "event_axes (Cbar_set_yticklabels a l) = Some a"
| "event_axes (Set_axis_off a) = Some a"
| "event_axes e = None"

fun scatter_color :: "event \<Rightarrow> scatter_c option" where
  "scatter_color (Ax_scatter a x y c cm s lw ec kw) = Some c"
| "scatter_color e = None"

text \<open>The events a call appended, given the state before and after.\<close>

definition new_events :: "plt \<Rightarrow> plt \<Rightarrow> event list" where
  "new_events st st' = drop (length (trace st)) (trace st')"

text \<open>A color array of numbers: a numeric numpy array, or a list without strings.\<close>

definition numeric_array :: "color \<Rightarrow> bool" where
  "numeric_array c =
     (case c of
        CArray (NumArr xs) \<Rightarrow> True
      | CList xs \<Rightarrow> list_all (\<lambda>v. \<not> is_str v) xs
      | _ \<Rightarrow> False)"

section \<open>Example inputs\<close>

definition plt0 :: plt where
  "plt0 = \<lparr>next_id = 0, gcf = None, current_axes = None, trace = []\<rparr>"

definition adata_groups :: anndata where
  "adata_groups =
     \<lparr>obsm = [''X_umap'' \<mapsto> [[0, 0], [1, 0], [0, 1], [1, 1], [2, 2]]],
      obs = [''group'' \<mapsto> StrCol [''A'', ''B'', ''A'', ''C'', ''B'']],
      uns = Map.empty\<rparr>"

text \<open>
  Modelled from the spec: \<^verbatim>\<open>embedding\<close> of \<^verbatim>\<open>scanpy.plotting\<close> is not under src/. The
  embedding scatter renderer looks up the coordinate array of the key, fails with the
  container's lookup error when the key is absent, and returns nothing when it shows the
  plot and the axes it drew on otherwise.
\<close>

definition embedding :: "anndata \<Rightarrow> embedding_args \<Rightarrow> py_error + ret" where
  "embedding adata args =
     (case obsm adata (e_basis args) of
        None \<Rightarrow> Inl (KeyError (e_basis args))
      | Some dt \<Rightarrow> if e_show args then Inr RNone else Inr (RAxes (e_ax args)))"

definition adata_harmony :: anndata where
  "adata_harmony =
     \<lparr>obsm = [''harmony'' \<mapsto> [[0, 0], [1, 0], [0, 1], [1, 1]]],
      obs = [''timepoint'' \<mapsto> StrCol [''t1'', ''t2'', ''t0'', ''t1'']],
      uns = [''harmony_timepoint_var'' \<mapsto> UStr ''timepoint'']\<rparr>"

definition adata_single :: anndata where
  "adata_single =
     \<lparr>obsm = [''harmony'' \<mapsto> [[0, 0], [1, 0]]],
      obs = [''timepoint'' \<mapsto> StrCol [''t0'', ''t0'']],
      uns = [''harmony_timepoint_var'' \<mapsto> UStr ''timepoint'']\<rparr>"

text \<open>Stand-ins for the Wishbone collaborators, for running the delegator on an example.\<close>

definition example_to_wishbone :: "anndata \<Rightarrow> py_error + unit" where
  "example_to_wishbone adata = Inr ()"

definition example_plot_marker_trajectory ::
  "unit \<Rightarrow> trajectory_args \<Rightarrow> py_error + (string \<rightharpoonup> table) \<times> figure \<times> axes"
where
  "example_plot_marker_trajectory wb args =
     Inr ([''Trunk'' \<mapsto> [(''CD34'', [1, 2])], ''Branch1'' \<mapsto> [(''CD34'', [3])],
           ''Branch2'' \<mapsto> [(''CD34'', [4])]], t_fig args, t_ax args)"


section \<open>Facts about the model\<close>

section \<open>Missing projection key\<close>

text \<open>
  C3, as amended. For every container and every projection key absent from
  \<^verbatim>\<open>adata.obsm\<close>, \<^verbatim>\<open>sam\<close> fails with a ValueError raised from the container's KeyError
  (the lookup failure is caught and wrapped, with the message asking to create a
  projection first), and the plotting state is untouched: no figure is created.
\<close>

theorem sam_missing_projection_wrapped:
  assumes "obsm adata key = None"
  shows "sam conv adata (PKey key) c cmap linewidth edgecolor axes colorbar s kwargs st =
           (st, Inl (ValueError ''Please create a projection first using run_umap or run_tsne''
                       (Some (KeyError key))))"
  using assms by (simp add: sam_def resolve_projection_def)

theorem sam_missing_projection_wrapped_witness:
  "obsm adata_groups ''X_tsne'' = None \<and>
   sam convert_annotations adata_groups (PKey ''X_tsne'') None ''Spectral_r'' 0 ''k'' None True 10
       [] plt0 =
     (plt0, Inl (ValueError ''Please create a projection first using run_umap or run_tsne''
                   (Some (KeyError ''X_tsne''))))"
proof -
  have h: "obsm adata_groups ''X_tsne'' = None"
    by (simp add: adata_groups_def)
  show ?thesis
    using h sam_missing_projection_wrapped [OF h] by simp
qed

text \<open>
  C3 as stated fails: the error that reaches the caller is not the container's own
  KeyError.
\<close>

theorem sam_missing_projection_not_keyerror:
  "snd (sam convert_annotations adata_groups (PKey ''X_tsne'') None ''Spectral_r'' 0 ''k'' None
          True 10 [] plt0) \<noteq> Inl (KeyError ''X_tsne'')"
  by (simp add: sam_def resolve_projection_def adata_groups_def)

lemma acquire_axes_trace:
  "acquire_axes axes st = (st1, ax) \<Longrightarrow>
   trace st1 = trace st @ (case axes of None \<Rightarrow> [New_figure (Figure (next_id st)) None, New_axes ax] | Some a \<Rightarrow> [])"
  by (auto simp: acquire_axes_def plt_figure_def plt_gca_def Let_def split: option.splits prod.splits)

lemma acquire_axes_result:
  "acquire_axes axes st = (st1, ax) \<Longrightarrow>
   ax = (case axes of None \<Rightarrow> Axes (Suc (next_id st)) (Figure (next_id st)) | Some a \<Rightarrow> a)"
  by (auto simp: acquire_axes_def plt_figure_def plt_gca_def Let_def split: option.splits prod.splits)

lemma sam_numeric_trace:
  "sam_numeric dt ax c cmap lw ec cb s kw st = (st', r) \<Longrightarrow>
   \<exists>evs. trace st' = trace st @ evs \<and> list_all (\<lambda>e. event_axes e = Some ax \<and> (\<forall>col. scatter_color e = Some col \<longrightarrow> col = Raw c) \<and> (is_colorbar e \<longrightarrow> is_array_or_list c \<and> cb)) evs"
  by (auto simp: sam_numeric_def emit_def Let_def split: sum.splits prod.splits if_splits)

lemma sam_plain_trace:
  "sam_plain dt ax lw ec s kw st = (st', r) \<Longrightarrow>
   \<exists>evs. trace st' = trace st @ evs \<and> list_all (\<lambda>e. event_axes e = Some ax \<and> \<not> is_colorbar e) evs"
  by (auto simp: sam_plain_def emit_def Let_def split: sum.splits prod.splits if_splits)

lemma sam_categorical_trace:
  "sam_categorical conv dt ax c cmap lw ec cb s kw st = (st', r) \<Longrightarrow>
   \<exists>evs. trace st' = trace st @ evs \<and> list_all (\<lambda>e. event_axes e = Some ax) evs"
  by (auto simp: sam_categorical_def emit_def Let_def split: sum.splits prod.splits if_splits)

text \<open>
  C6. In \<^verbatim>\<open>sam\<close>, for every color value that is not array-like once resolved (a string
  that names no observation attribute, a tuple, a bare number), the call draws no
  colorbar, whatever the \<^verbatim>\<open>colorbar\<close> option says: the events it appends to the trace
  hold no colorbar call.
\<close>

theorem sam_constant_color_no_colorbar:
  assumes "\<not> is_array_or_list (resolve_color adata c0)"
  shows "\<exists>evs. trace (fst (sam conv adata projection (Some c0) cmap linewidth edgecolor axes
                              colorbar s kwargs st)) = trace st @ evs
               \<and> list_all (\<lambda>e. \<not> is_colorbar e) evs"
proof (cases "resolve_projection adata projection")
  case (Inl e)
  then show ?thesis by (simp add: sam_def)
next
  case (Inr dt)
  obtain st1 ax where acq: "acquire_axes axes st = (st1, ax)" by (cases "acquire_axes axes st")
  from acquire_axes_trace [OF acq] obtain evs0 where
    t1: "trace st1 = trace st @ evs0" and nc0: "list_all (\<lambda>e. \<not> is_colorbar e) evs0"
    by (cases axes) auto
  show ?thesis
  proof (cases "first_item (resolve_color adata c0)")
    case (Inl e)
    with Inr acq t1 nc0 show ?thesis by (simp add: sam_def)
  next
    case item: (Inr item)
    obtain st' r where run: "sam_numeric dt ax (resolve_color adata c0) cmap linewidth edgecolor colorbar s kwargs st1 = (st', r)"
      by (cases "sam_numeric dt ax (resolve_color adata c0) cmap linewidth edgecolor colorbar s kwargs st1")
    from sam_numeric_trace [OF run] assms obtain evs where
      "trace st' = trace st1 @ evs" "list_all (\<lambda>e. \<not> is_colorbar e) evs"
      by (auto simp: list_all_iff)
    with Inr acq t1 nc0 item run assms show ?thesis by (simp add: sam_def)
  qed
qed

lemma numeric_array_first_item:
  "numeric_array c \<Longrightarrow> first_item c = Inr item \<Longrightarrow> \<not> is_str item"
  by (auto simp: numeric_array_def split: color.splits ndarray.splits list.splits)

lemma sam_not_categorical:
  assumes "\<forall>item. first_item (resolve_color adata c0) = Inr item \<longrightarrow>
             \<not> (is_str item \<and> is_array_or_list (resolve_color adata c0))"
  shows "sam conv adata projection (Some c0) cmap linewidth edgecolor axes colorbar s kwargs st =
           (case resolve_projection adata projection of
              Inl e \<Rightarrow> (st, Inl e)
            | Inr dt \<Rightarrow>
                (let (st1, ax) = acquire_axes axes st
                 in case first_item (resolve_color adata c0) of
                      Inl e \<Rightarrow> (st1, Inl e)
                    | Inr item \<Rightarrow>
                        sam_numeric dt ax (resolve_color adata c0) cmap linewidth edgecolor
                          colorbar s kwargs st1))"
  using assms by (auto simp: sam_def Let_def split: sum.splits prod.splits)

text \<open>
  C7. In \<^verbatim>\<open>sam\<close>, for every numeric color array (a numeric numpy array or a list
  without strings, given directly or found under an observation key) the categorical
  encoder is never consulted (the result is the same with an encoder that always
  fails), every scatter call of the trace carries the array unchanged, and when the
  coordinates and the first item can be read the call succeeds with exactly that
  scatter call recorded.
\<close>

theorem sam_numeric_passthrough:
  assumes "numeric_array (resolve_color adata c0)"
  shows "sam conv adata projection (Some c0) cmap linewidth edgecolor axes colorbar s kwargs st =
           sam (\<lambda>c. Inl AttributeError) adata projection (Some c0) cmap linewidth edgecolor axes
             colorbar s kwargs st
         \<and> (\<exists>evs. trace (fst (sam conv adata projection (Some c0) cmap linewidth edgecolor axes
                                 colorbar s kwargs st)) = trace st @ evs
                  \<and> list_all (\<lambda>e. \<forall>col. scatter_color e = Some col \<longrightarrow>
                                      col = Raw (resolve_color adata c0)) evs)
         \<and> (\<forall>dt x y item st1 ax.
               resolve_projection adata projection = Inr dt \<and> xy dt = Inr (x, y)
               \<and> first_item (resolve_color adata c0) = Inr item
               \<and> acquire_axes axes st = (st1, ax) \<longrightarrow>
               snd (sam conv adata projection (Some c0) cmap linewidth edgecolor axes colorbar s
                      kwargs st) = Inr ax
               \<and> Ax_scatter ax x y (Raw (resolve_color adata c0)) (Some cmap) s linewidth
                    edgecolor kwargs
                  \<in> set (trace (fst (sam conv adata projection (Some c0) cmap linewidth
                                       edgecolor axes colorbar s kwargs st))))"
proof -
  let ?c = "resolve_color adata c0"
  have nc: "\<forall>item. first_item ?c = Inr item \<longrightarrow> \<not> (is_str item \<and> is_array_or_list ?c)"
    using numeric_array_first_item [OF assms] by blast
  note eq = sam_not_categorical [of adata c0, OF nc]
  have A: "sam conv adata projection (Some c0) cmap linewidth edgecolor axes colorbar s kwargs st =
           sam (\<lambda>c. Inl AttributeError) adata projection (Some c0) cmap linewidth edgecolor axes
             colorbar s kwargs st"
    by (simp only: eq)
  have B: "\<exists>evs. trace (fst (sam conv adata projection (Some c0) cmap linewidth edgecolor axes
                                 colorbar s kwargs st)) = trace st @ evs
                  \<and> list_all (\<lambda>e. \<forall>col. scatter_color e = Some col \<longrightarrow> col = Raw ?c) evs"
  proof (cases "resolve_projection adata projection")
    case (Inl e)
    then show ?thesis by (simp add: eq)
  next
    case (Inr dt)
    obtain st1 ax where acq: "acquire_axes axes st = (st1, ax)" by (cases "acquire_axes axes st")
    from acquire_axes_trace [OF acq] obtain evs0 where
      t1: "trace st1 = trace st @ evs0"
      and nc0: "list_all (\<lambda>e. \<forall>col. scatter_color e = Some col \<longrightarrow> col = Raw ?c) evs0"
      by (cases axes) auto
    show ?thesis
    proof (cases "first_item ?c")
      case (Inl e)
      with Inr acq t1 nc0 show ?thesis by (simp add: eq)
    next
      case item: (Inr item)
      obtain st' r where run: "sam_numeric dt ax ?c cmap linewidth edgecolor colorbar s kwargs st1 = (st', r)"
        by (cases "sam_numeric dt ax ?c cmap linewidth edgecolor colorbar s kwargs st1")
      from sam_numeric_trace [OF run] obtain evs where
        "trace st' = trace st1 @ evs"
        "list_all (\<lambda>e. \<forall>col. scatter_color e = Some col \<longrightarrow> col = Raw ?c) evs"
        by (auto simp: list_all_iff)
      with Inr acq t1 nc0 item run show ?thesis by (simp add: eq)
    qed
  qed
  have C: "\<forall>dt x y item st1 ax.
               resolve_projection adata projection = Inr dt \<and> xy dt = Inr (x, y)
               \<and> first_item ?c = Inr item \<and> acquire_axes axes st = (st1, ax) \<longrightarrow>
               snd (sam conv adata projection (Some c0) cmap linewidth edgecolor axes colorbar s
                      kwargs st) = Inr ax
               \<and> Ax_scatter ax x y (Raw ?c) (Some cmap) s linewidth edgecolor kwargs
                  \<in> set (trace (fst (sam conv adata projection (Some c0) cmap linewidth
                                       edgecolor axes colorbar s kwargs st)))"
    by (auto simp: eq sam_numeric_def emit_def Let_def)
  from A B C show ?thesis by blast
qed

text \<open>
  C4. In \<^verbatim>\<open>sam\<close>, when the color is a string that is no key of \<^verbatim>\<open>adata.obs\<close>, the
  failed lookup is suppressed: the color stays the string itself, no KeyError reaches
  the caller, and (for a non-empty string on readable coordinates) the scatter call
  receives the string as its literal color.
\<close>

theorem sam_color_lookup_fallback:
  assumes "obs adata name = None"
  shows "resolve_color adata (CStr name) = CStr name
         \<and> (\<forall>k. snd (sam conv adata projection (Some (CStr name)) cmap linewidth edgecolor axes
                         colorbar s kwargs st) \<noteq> Inl (KeyError k))
         \<and> (\<forall>dt x y st1 ax.
               name \<noteq> [] \<and> resolve_projection adata projection = Inr dt \<and> xy dt = Inr (x, y)
               \<and> acquire_axes axes st = (st1, ax) \<longrightarrow>
               sam conv adata projection (Some (CStr name)) cmap linewidth edgecolor axes colorbar
                 s kwargs st =
                 (emit (Ax_scatter ax x y (Raw (CStr name)) (Some cmap) s linewidth edgecolor
                          kwargs) st1, Inr ax))"
proof -
  have rc: "resolve_color adata (CStr name) = CStr name"
    using assms by (simp add: resolve_color_def)
  have nc: "\<forall>item. first_item (resolve_color adata (CStr name)) = Inr item \<longrightarrow>
              \<not> (is_str item \<and> is_array_or_list (resolve_color adata (CStr name)))"
    by (simp add: rc)
  note eq = sam_not_categorical [OF nc]
  have B: "\<forall>k. snd (sam conv adata projection (Some (CStr name)) cmap linewidth edgecolor axes
                         colorbar s kwargs st) \<noteq> Inl (KeyError k)"
    by (auto simp: eq rc resolve_projection_def sam_numeric_def xy_def column_of_def Let_def
             split: sum.splits prod.splits projection.splits option.splits list.splits if_splits)
  have C: "\<forall>dt x y st1 ax.
               name \<noteq> [] \<and> resolve_projection adata projection = Inr dt \<and> xy dt = Inr (x, y)
               \<and> acquire_axes axes st = (st1, ax) \<longrightarrow>
               sam conv adata projection (Some (CStr name)) cmap linewidth edgecolor axes colorbar
                 s kwargs st =
                 (emit (Ax_scatter ax x y (Raw (CStr name)) (Some cmap) s linewidth edgecolor
                          kwargs) st1, Inr ax)"
  proof (intro allI impI, elim conjE)
    fix dt x y st1 ax
    assume ne: "name \<noteq> []" and dt: "resolve_projection adata projection = Inr dt"
      and xy: "xy dt = Inr (x, y)" and acq: "acquire_axes axes st = (st1, ax)"
    from ne obtain ch where item: "first_item (CStr name) = Inr (Str [ch])"
      by (cases name) auto
    show "sam conv adata projection (Some (CStr name)) cmap linewidth edgecolor axes colorbar
            s kwargs st =
            (emit (Ax_scatter ax x y (Raw (CStr name)) (Some cmap) s linewidth edgecolor
                     kwargs) st1, Inr ax)"
      by (simp add: eq rc dt xy acq item sam_numeric_def del: first_item.simps)
  qed
  from rc B C show ?thesis by blast
qed

lemma sam_plain_success:
  assumes "sam_plain dt ax lw ec s kw st = (st', Inr r)"
  shows "r = ax \<and> (\<exists>evs. trace st' = trace st @ evs \<and> list_all (\<lambda>e. event_axes e = Some ax) evs
           \<and> (\<exists>x y col cm. Ax_scatter ax x y col cm s lw ec kw \<in> set evs))"
  using assms
  by (auto simp: sam_plain_def emit_def Let_def split: sum.splits prod.splits if_splits)

lemma sam_numeric_success:
  assumes "sam_numeric dt ax c cmap lw ec cb s kw st = (st', Inr r)"
  shows "r = ax \<and> (\<exists>evs. trace st' = trace st @ evs \<and> list_all (\<lambda>e. event_axes e = Some ax) evs
           \<and> (\<exists>x y col cm. Ax_scatter ax x y col cm s lw ec kw \<in> set evs))"
  using assms
  by (auto simp: sam_numeric_def emit_def Let_def split: sum.splits prod.splits if_splits)

lemma sam_categorical_success:
  assumes "sam_categorical conv dt ax c cmap lw ec cb s kw st = (st', Inr r)"
  shows "r = ax \<and> (\<exists>evs. trace st' = trace st @ evs \<and> list_all (\<lambda>e. event_axes e = Some ax) evs
           \<and> (\<exists>x y col cm. Ax_scatter ax x y col cm s lw ec kw \<in> set evs))"
  using assms
  by (auto simp: sam_categorical_def emit_def Let_def split: sum.splits prod.splits if_splits)

lemma sam_success_branch:
  assumes "sam conv adata projection c cmap lw ec axes cb s kw st = (st', Inr r)"
    and "acquire_axes axes st = (st1, ax)"
  shows "r = ax \<and> (\<exists>evs. trace st' = trace st1 @ evs \<and> list_all (\<lambda>e. event_axes e = Some ax) evs
           \<and> (\<exists>x y col cm. Ax_scatter ax x y col cm s lw ec kw \<in> set evs))"
proof -
  from assms obtain dt where dt: "resolve_projection adata projection = Inr dt"
    by (auto simp: sam_def split: sum.splits)
  show ?thesis
  proof (cases c)
    case None
    with assms dt have "sam_plain dt ax lw ec s kw st1 = (st', Inr r)"
      by (simp add: sam_def)
    from sam_plain_success [OF this] show ?thesis .
  next
    case (Some c0)
    with assms dt obtain item where item: "first_item (resolve_color adata c0) = Inr item"
      by (auto simp: sam_def Let_def split: sum.splits)
    show ?thesis
    proof (cases "is_str item \<and> is_array_or_list (resolve_color adata c0)")
      case True
      with assms dt Some item
      have "sam_categorical conv dt ax (resolve_color adata c0) cmap lw ec cb s kw st1 = (st', Inr r)"
        by (simp add: sam_def)
      from sam_categorical_success [OF this] show ?thesis .
    next
      case False
      with assms dt Some item
      have "sam_numeric dt ax (resolve_color adata c0) cmap lw ec cb s kw st1 = (st', Inr r)"
        by (auto simp add: sam_def)
      from sam_numeric_success [OF this] show ?thesis .
    qed
  qed
qed

text \<open>
  C8. Every successful call of \<^verbatim>\<open>sam\<close> returns the axes it drew on: the axes the
  caller supplied, or else an axes created by the call (its creation is among the new
  events, with an id not handed out before). A scatter call on the returned axes is
  among the new events and no new event touches another axes. The statement does not
  depend on the color, so it covers the three branches.
\<close>

theorem sam_returns_axes_used:
  assumes "sam conv adata projection c cmap linewidth edgecolor axes colorbar s kwargs st =
             (st', Inr r)"
  shows "(case axes of
            Some a \<Rightarrow> r = a
          | None \<Rightarrow> r = Axes (Suc (next_id st)) (Figure (next_id st))
                    \<and> New_axes r \<in> set (new_events st st'))
         \<and> (\<exists>x y col cm. Ax_scatter r x y col cm s linewidth edgecolor kwargs
                            \<in> set (new_events st st'))
         \<and> list_all (\<lambda>e. event_axes e = None \<or> event_axes e = Some r) (new_events st st')"
proof -
  obtain st1 ax where acq: "acquire_axes axes st = (st1, ax)" by (cases "acquire_axes axes st")
  from sam_success_branch [OF assms acq] obtain evs where
    r: "r = ax" and t: "trace st' = trace st1 @ evs"
    and on: "list_all (\<lambda>e. event_axes e = Some ax) evs"
    and sc: "\<exists>x y col cm. Ax_scatter ax x y col cm s linewidth edgecolor kwargs \<in> set evs"
    by blast
  note t1 = acquire_axes_trace [OF acq] and res = acquire_axes_result [OF acq]
  have ne: "new_events st st' =
              (case axes of None \<Rightarrow> [New_figure (Figure (next_id st)) None, New_axes ax]
                          | Some a \<Rightarrow> []) @ evs"
    by (simp add: new_events_def t t1)
  show ?thesis
    using r on sc res unfolding ne
    by (cases axes) (auto simp: list_all_iff)
qed

lemma first_index_props:
  assumes "v \<in> set xs"
  shows "first_index xs v < length xs \<and> xs ! first_index xs v = v
         \<and> (\<forall>j < first_index xs v. xs ! j \<noteq> v)"
  using assms
proof (induction xs)
  case Nil
  then show ?case by simp
next
  case (Cons x xs)
  show ?case
  proof (cases "x = v")
    case True
    then show ?thesis by simp
  next
    case False
    with Cons.prems have "v \<in> set xs" by simp
    from Cons.IH [OF this] False show ?thesis
      by (auto simp: nth_Cons split: nat.splits)
  qed
qed

lemma np_unique_props:
  assumes "np_unique i = (ui, ai)"
  shows "sorted ui \<and> distinct ui \<and> set ui = set i \<and> ai = map (first_index i) ui"
  using assms by (auto simp: np_unique_def Let_def)

lemma take_at_string_array:
  assumes "\<forall>j \<in> set ai. j < length xs"
  shows "take_at (CArray (StrArr xs)) ai = Inr (map (\<lambda>j. xs ! j) ai)"
  using assms by (simp add: list_all_iff)

text \<open>
  C2. In \<^verbatim>\<open>sam\<close>, when the resolved color is a string array, the encoder returns one
  code per row and a colorbar is requested, the colorbar's ticks are the distinct codes
  in increasing order, and the tick label of each code is the original string of the
  first row that bears the code.
\<close>

theorem sam_colorbar_ticks_and_labels:
  assumes rc: "resolve_color adata c0 = CArray (StrArr xs)"
    and ne: "xs \<noteq> []"
    and conv: "conv (CArray (StrArr xs)) = Inr i"
    and len: "length i = length xs"
    and dt: "resolve_projection adata projection = Inr dt"
    and xy: "xy dt = Inr (x, y)"
    and acq: "acquire_axes axes st = (st1, ax)"
  shows "\<exists>ui labels.
           sam conv adata projection (Some c0) cmap linewidth edgecolor axes True s kwargs st =
             (emit (Cbar_set_yticklabels ax labels)
                (emit (Plt_colorbar ax (Some ui))
                   (emit (Ax_scatter ax x y (Codes i) (Some cmap) s linewidth edgecolor kwargs)
                      st1)), Inr ax)
           \<and> sorted ui \<and> distinct ui \<and> set ui = set i \<and> length labels = length ui
           \<and> (\<forall>k < length ui. \<exists>j < length i.
                  i ! j = ui ! k \<and> (\<forall>j' < j. i ! j' \<noteq> ui ! k) \<and> labels ! k = xs ! j)"
proof -
  obtain ui ai where u: "np_unique i = (ui, ai)" by (cases "np_unique i")
  note p = np_unique_props [OF u]
  let ?labels = "map (\<lambda>j. xs ! j) ai"
  have inb: "\<forall>j \<in> set ai. j < length xs"
    using p first_index_props [of _ i] len by auto
  obtain x0 xs' where xs: "xs = x0 # xs'" using ne by (cases xs) auto
  have item: "first_item (CArray (StrArr xs)) = Inr (Str x0)" by (simp add: xs)
  have run: "sam conv adata projection (Some c0) cmap linewidth edgecolor axes True s kwargs st =
             (emit (Cbar_set_yticklabels ax ?labels)
                (emit (Plt_colorbar ax (Some ui))
                   (emit (Ax_scatter ax x y (Codes i) (Some cmap) s linewidth edgecolor kwargs)
                      st1)), Inr ax)"
    by (simp add: sam_def rc dt acq item sam_categorical_def conv u xy
          take_at_string_array [OF inb] del: first_item.simps take_at.simps)
  have each: "\<forall>k < length ui. \<exists>j < length i.
                i ! j = ui ! k \<and> (\<forall>j' < j. i ! j' \<noteq> ui ! k) \<and> ?labels ! k = xs ! j"
  proof (intro allI impI)
    fix k assume k: "k < length ui"
    then have "ui ! k \<in> set i" using p by (metis nth_mem)
    from first_index_props [OF this] k p show
      "\<exists>j < length i. i ! j = ui ! k \<and> (\<forall>j' < j. i ! j' \<noteq> ui ! k) \<and> ?labels ! k = xs ! j"
      by (intro exI [of _ "first_index i (ui ! k)"]) simp
  qed
  from run p each show ?thesis
    by (intro exI [of _ ui] exI [of _ ?labels]) simp
qed


lemma three_updates_frame:
  "dom (m(k1 \<mapsto> a, k2 \<mapsto> b, k3 \<mapsto> c)) = dom m \<union> {k1, k2, k3}
   \<and> (\<forall>k. k \<notin> {k1, k2, k3} \<longrightarrow> (m(k1 \<mapsto> a, k2 \<mapsto> b, k3 \<mapsto> c)) k = m k)"
  by auto

lemma store_branches_success:
  assumes "store_branches adata ret_values = (adata', Inr u)"
  shows "\<exists>trunk branch1 branch2.
           ret_values ''Trunk'' = Some trunk
           \<and> ret_values ''Branch1'' = Some branch1
           \<and> ret_values ''Branch2'' = Some branch2
           \<and> adata' = adata\<lparr>uns := (uns adata)(''trunk_wishbone'' \<mapsto> UTable trunk,
                                                ''branch1_wishbone'' \<mapsto> UTable branch1,
                                                ''branch2_wishbone'' \<mapsto> UTable branch2)\<rparr>"
  using assms by (auto simp: store_branches_def Let_def split: option.splits)

lemma wishbone_success:
  assumes "wishbone_marker_trajectory to_wishbone plot_trajectory adata markers no_bins
             smoothing_factor min_delta show_variance figsize return_fig show save ax st =
             (adata', st', Inr r)"
  shows "\<exists>wb args ret_values fig' ax' u.
           to_wishbone adata = Inr wb
           \<and> Call_plot_marker_trajectory args \<in> set (trace st')
           \<and> plot_trajectory wb args = Inr (ret_values, fig', ax')
           \<and> store_branches adata ret_values = (adata', Inr u)
           \<and> r = (if return_fig then RFig fig' else if show then RNone else RAxes ax')"
proof -
  from assms obtain wb where wb: "to_wishbone adata = Inr wb"
    by (auto simp: wishbone_marker_trajectory_def split: sum.splits)
  obtain st1 fig ax1 where cv: "trajectory_canvas markers figsize ax st = (st1, fig, ax1)"
    by (cases "trajectory_canvas markers figsize ax st") auto
  let ?args = "\<lparr>t_markers = markers, t_show_variance = show_variance, t_no_bins = no_bins,
                t_smoothing_factor = smoothing_factor, t_min_delta = min_delta, t_fig = fig,
                t_ax = ax1\<rparr>"
  from assms wb cv obtain ret_values fig' ax' where
    pl: "plot_trajectory wb ?args = Inr (ret_values, fig', ax')"
    by (auto simp: wishbone_marker_trajectory_def Let_def split: sum.splits)
  from assms wb cv pl obtain u where sb: "store_branches adata ret_values = (adata', Inr u)"
    by (auto simp: wishbone_marker_trajectory_def Let_def split: sum.splits prod.splits if_splits)
  from assms wb cv pl sb
  have "Call_plot_marker_trajectory ?args \<in> set (trace st')"
    and "r = (if return_fig then RFig fig' else if show then RNone else RAxes ax')"
    by (auto simp: wishbone_marker_trajectory_def Let_def emit_def split: if_splits)
  with wb pl sb show ?thesis by blast
qed

text \<open>
  C1. For \<^verbatim>\<open>harmony_timeseries\<close> and \<^verbatim>\<open>wishbone_marker_trajectory\<close>, a call that returns
  follows the three-way display contract: the figure when \<^verbatim>\<open>return_fig\<close> is true,
  whatever \<^verbatim>\<open>show\<close> is; otherwise nothing when \<^verbatim>\<open>show\<close> is true; otherwise the axes
  (the subplot axes, respectively the axes the collaborator handed back).
\<close>

theorem display_contract:
  "(harmony_timeseries embedding' adata show return_fig kwargs st = (st', Inr r) \<longrightarrow>
      (\<exists>tp_name col st1 fig axs.
          uns adata ''harmony_timepoint_var'' = Some (UStr tp_name)
          \<and> obs adata tp_name = Some col
          \<and> plt_subplots (length (pd_unique col)) st = (st1, Inr (fig, axs))
          \<and> r = (if return_fig then RFig fig else if show then RNone else RSubplots axs)))
   \<and> (wishbone_marker_trajectory to_wishbone plot_trajectory adata markers no_bins
         smoothing_factor min_delta show_variance figsize return_fig show save ax st =
         (adata', st'', Inr r') \<longrightarrow>
      (\<exists>wb args ret_values fig' ax'.
          to_wishbone adata = Inr wb
          \<and> Call_plot_marker_trajectory args \<in> set (trace st'')
          \<and> plot_trajectory wb args = Inr (ret_values, fig', ax')
          \<and> r' = (if return_fig then RFig fig' else if show then RNone else RAxes ax')))"
proof (intro conjI impI)
  assume "harmony_timeseries embedding' adata show return_fig kwargs st = (st', Inr r)"
  then show "\<exists>tp_name col st1 fig axs.
          uns adata ''harmony_timepoint_var'' = Some (UStr tp_name)
          \<and> obs adata tp_name = Some col
          \<and> plt_subplots (length (pd_unique col)) st = (st1, Inr (fig, axs))
          \<and> r = (if return_fig then RFig fig else if show then RNone else RSubplots axs)"
    by (auto simp: harmony_timeseries_def Let_def
             split: option.splits uns_value.splits prod.splits sum.splits if_splits)
next
  assume "wishbone_marker_trajectory to_wishbone plot_trajectory adata markers no_bins
         smoothing_factor min_delta show_variance figsize return_fig show save ax st =
         (adata', st'', Inr r')"
  from wishbone_success [OF this] show "\<exists>wb args ret_values fig' ax'.
          to_wishbone adata = Inr wb
          \<and> Call_plot_marker_trajectory args \<in> set (trace st'')
          \<and> plot_trajectory wb args = Inr (ret_values, fig', ax')
          \<and> r' = (if return_fig then RFig fig' else if show then RNone else RAxes ax')"
    by blast
qed

text \<open>
  C9. A successful call of \<^verbatim>\<open>wishbone_marker_trajectory\<close> leaves the container as it
  was except for \<^verbatim>\<open>adata.uns\<close>, which gains the three tables of the collaborator under
  \<^verbatim>\<open>trunk_wishbone\<close>, \<^verbatim>\<open>branch1_wishbone\<close> and \<^verbatim>\<open>branch2_wishbone\<close>; no key is removed
  and every other key keeps its value.
\<close>

theorem wishbone_writes_three_tables:
  assumes "wishbone_marker_trajectory to_wishbone plot_trajectory adata markers no_bins
             smoothing_factor min_delta show_variance figsize return_fig show save ax st =
             (adata', st', Inr r)"
  shows "\<exists>wb args ret_values fig' ax' trunk branch1 branch2.
           to_wishbone adata = Inr wb
           \<and> plot_trajectory wb args = Inr (ret_values, fig', ax')
           \<and> ret_values ''Trunk'' = Some trunk
           \<and> ret_values ''Branch1'' = Some branch1
           \<and> ret_values ''Branch2'' = Some branch2
           \<and> adata' = adata\<lparr>uns := (uns adata)(''trunk_wishbone'' \<mapsto> UTable trunk,
                                                ''branch1_wishbone'' \<mapsto> UTable branch1,
                                                ''branch2_wishbone'' \<mapsto> UTable branch2)\<rparr>
           \<and> obsm adata' = obsm adata \<and> obs adata' = obs adata
           \<and> dom (uns adata') =
               dom (uns adata) \<union> {''trunk_wishbone'', ''branch1_wishbone'', ''branch2_wishbone''}
           \<and> (\<forall>k. k \<notin> {''trunk_wishbone'', ''branch1_wishbone'', ''branch2_wishbone''} \<longrightarrow>
                  uns adata' k = uns adata k)"
proof -
  from wishbone_success [OF assms] obtain wb args ret_values fig' ax' u where
    wb: "to_wishbone adata = Inr wb"
    and pl: "plot_trajectory wb args = Inr (ret_values, fig', ax')"
    and sb: "store_branches adata ret_values = (adata', Inr u)"
    by blast
  from store_branches_success [OF sb] obtain trunk branch1 branch2 where
    t: "ret_values ''Trunk'' = Some trunk" "ret_values ''Branch1'' = Some branch1"
       "ret_values ''Branch2'' = Some branch2"
    and a: "adata' = adata\<lparr>uns := (uns adata)(''trunk_wishbone'' \<mapsto> UTable trunk,
                                                ''branch1_wishbone'' \<mapsto> UTable branch1,
                                                ''branch2_wishbone'' \<mapsto> UTable branch2)\<rparr>"
    by blast
  have sel: "obsm (adata\<lparr>uns := m\<rparr>) = obsm adata" "obs (adata\<lparr>uns := m\<rparr>) = obs adata"
    "uns (adata\<lparr>uns := m\<rparr>) = m" for m
    by simp_all
  have frame: "obsm adata' = obsm adata \<and> obs adata' = obs adata
           \<and> dom (uns adata') =
               dom (uns adata) \<union> {''trunk_wishbone'', ''branch1_wishbone'', ''branch2_wishbone''}
           \<and> (\<forall>k. k \<notin> {''trunk_wishbone'', ''branch1_wishbone'', ''branch2_wishbone''} \<longrightarrow>
                  uns adata' k = uns adata k)"
    unfolding a sel
    by (intro conjI refl three_updates_frame [THEN conjunct1]
          three_updates_frame [THEN conjunct2])
  show ?thesis
    apply (rule exI [of _ wb])
    apply (rule exI [of _ args])
    apply (rule exI [of _ ret_values])
    apply (rule exI [of _ fig'])
    apply (rule exI [of _ ax'])
    apply (rule exI [of _ trunk])
    apply (rule exI [of _ branch1])
    apply (rule exI [of _ branch2])
    using wb pl t a frame apply (elim conjE)
    apply (intro conjI; assumption)
    done
qed

lemma plt_subplots_one:
  "plt_subplots (Suc 0) st =
     (st\<lparr>next_id := Suc (Suc (next_id st)), gcf := Some (Figure (next_id st)),
         current_axes := Some (Axes (Suc (next_id st)) (Figure (next_id st))),
         trace := trace st @ [New_figure (Figure (next_id st)) None,
                              New_axes (Axes (Suc (next_id st)) (Figure (next_id st)))]\<rparr>,
      Inr (Figure (next_id st), Single (Axes (Suc (next_id st)) (Figure (next_id st)))))"
  by (simp add: plt_subplots_def plt_figure_def Let_def)

lemma unique_seen_set: "set (unique_seen seen xs) = set xs - set seen"
  by (induction seen xs rule: unique_seen.induct) auto

lemma unique_seen_distinct: "distinct (unique_seen seen xs)"
  by (induction seen xs rule: unique_seen.induct) (auto simp: unique_seen_set)

lemma pd_unique_length: "length (pd_unique col) = card (set (column_cells col))"
  using distinct_card [OF unique_seen_distinct, of "[]" "column_cells col"]
  by (simp add: pd_unique_def unique_seen_set)

text \<open>
  C10. When the time-point attribute has exactly one distinct value,
  \<^verbatim>\<open>harmony_timeseries\<close> fails with a TypeError: \<^verbatim>\<open>plt.subplots(1, 1)\<close> hands back a
  bare axes, and \<^verbatim>\<open>axes[0]\<close> cannot index it. The figure and its one axes have been
  created; no panel is rendered.
\<close>

theorem harmony_single_timepoint_fails:
  assumes "uns adata ''harmony_timepoint_var'' = Some (UStr tp_name)"
    and "obs adata tp_name = Some col"
    and "card (set (column_cells col)) = 1"
  shows "harmony_timeseries embedding' adata show return_fig kwargs st =
           (fst (plt_subplots 1 st), Inl TypeError)
         \<and> (\<exists>fig a. snd (plt_subplots 1 st) = Inr (fig, Single a) \<and> subscript (Single a) 0 = Inl TypeError)
         \<and> new_events st (fst (harmony_timeseries embedding' adata show return_fig kwargs st)) =
             [New_figure (Figure (next_id st)) None,
              New_axes (Axes (Suc (next_id st)) (Figure (next_id st)))]"
proof -
  from assms(3) have len: "length (pd_unique col) = 1"
    by (simp add: pd_unique_length)
  then obtain tp where tps: "pd_unique col = [tp]"
    by (cases "pd_unique col") auto
  have run: "harmony_timeseries embedding' adata show return_fig kwargs st =
           (fst (plt_subplots 1 st), Inl TypeError)"
    by (simp add: harmony_timeseries_def assms(1,2) tps plt_subplots_one)
  show ?thesis
    by (simp add: run plt_subplots_one new_events_def)
qed

end
